theory Spec2Isabelle
  imports Complex_Main "HOL-Library.Sublist" "HOL-Library.Log_Nat"
begin

section \<open>Values of type double\<close>

text \<open>
  A finite \<open>double\<close> is modelled by the real number it denotes. Constants, comparisons,
  the conversion of an \<open>int\<close> to \<open>double\<close>, \<open>ceil\<close> and the \<open>MIN\<close> macro are exact on
  these values. The arithmetic operations \<open>/\<close>, \<open>*\<close> and \<open>-\<close> round: the result is the exact
  result passed through the rounding of the platform, which the source does not fix. It
  is the parameter \<open>rnd\<close> of every function that computes with doubles, and nothing is
  assumed about it, except that an exact result that is an integer of magnitude at most
  \<open>2 ^ 53\<close> is returned as it is (a 53-bit significand holds it). Infinities and NaN are
  outside the model.

  Dividing by zero has no defined result in C: the model returns \<open>DivisionByZero\<close>.
\<close>

type_synonym double = real

datatype error = DivisionByZero

definition round_double :: "(real \<Rightarrow> real) \<Rightarrow> real \<Rightarrow> double" where
  "round_double rnd x =
     (if x = of_int \<lfloor>x\<rfloor> \<and> \<bar>x\<bar> \<le> 2 ^ 53 then x else rnd x)"

definition ddiv :: "(real \<Rightarrow> real) \<Rightarrow> double \<Rightarrow> double \<Rightarrow> error + double" where
  "ddiv rnd x y = (if y = 0 then Inl DivisionByZero else Inr (round_double rnd (x / y)))"

definition dmul :: "(real \<Rightarrow> real) \<Rightarrow> double \<Rightarrow> double \<Rightarrow> double" where
  "dmul rnd x y = round_double rnd (x * y)"

definition dsub :: "(real \<Rightarrow> real) \<Rightarrow> double \<Rightarrow> double \<Rightarrow> double" where
  "dsub rnd x y = round_double rnd (x - y)"

text \<open>\<open>ceil\<close> of \<open>math.h\<close>: the least integer not below the argument, as a double.\<close>

definition ceil :: "double \<Rightarrow> double" where
  "ceil x = of_int \<lceil>x\<rceil>"

text \<open>The cast \<open>(int) x\<close> of a double discards the fractional part.\<close>

definition double_to_int :: "double \<Rightarrow> int" where
  "double_to_int x = (if 0 \<le> x then \<lfloor>x\<rfloor> else \<lceil>x\<rceil>)"

text \<open>GLib's macro \<open>MIN (a, b)\<close>, here on two doubles, is \<open>((a) < (b)) ? (a) : (b)\<close>.\<close>

definition MIN_double :: "double \<Rightarrow> double \<Rightarrow> double" where
  "MIN_double a b = (if a < b then a else b)"

text \<open>
  Where the application runs, \<open>double\<close> is the binary64 format of IEEE 754 and an operation
  returns the representable value nearest to its exact result, the one with an even
  significand when two are equally near. \<open>binary64\<close> is that rounding: a value other than
  zero lies in a binade \<open>2 ^ e \<le> \<bar>x\<bar> < 2 ^ (e + 1)\<close>, where the doubles are the multiples of
  \<open>2 ^ (e - 52)\<close>, and below \<open>2 ^ - 1022\<close> they are the multiples of \<open>2 ^ - 1074\<close>. A result
  beyond the largest double would be an infinity and is outside the model.
\<close>

definition binary_exponent :: "real \<Rightarrow> int" where
  "binary_exponent x =
     (if 1 \<le> x then bitlen \<lfloor>x\<rfloor> - 1 else - bitlen (\<lceil>1 / x\<rceil> - 1))"

definition round_half_even :: "real \<Rightarrow> int" where
  "round_half_even q =
     (let f = \<lfloor>q\<rfloor>; r = q - of_int f
      in if r < 1 / 2 then f else if 1 / 2 < r then f + 1 else if even f then f else f + 1)"

definition binary64 :: "real \<Rightarrow> real" where
  "binary64 x =
     (if x = 0 then 0
      else (let e = max (binary_exponent \<bar>x\<bar>) (- 1022);
                ulp = 2 powi (e - 52)
            in of_int (round_half_even (x / ulp)) * ulp))"

text \<open>
  A rounding stays below the integer \<open>n\<close> when no result that is at most \<open>n\<close> is rounded
  to a double above \<open>n\<close>.
\<close>

definition stays_below :: "(real \<Rightarrow> real) \<Rightarrow> int \<Rightarrow> bool" where
  "stays_below rnd n = (\<forall>x. x \<le> of_int n \<longrightarrow> round_double rnd x \<le> of_int n)"

section \<open>The screenshot widget (bz-screenshot.c)\<close>

definition TOP_HALF_FIXED_WIDTH :: int where
  "TOP_HALF_FIXED_WIDTH = 650"

definition TOP_HALF_FIXED_HEIGHT :: int where
  "TOP_HALF_FIXED_HEIGHT = 265"

text \<open>
  A paintable is an object of the toolkit. The widget reads its intrinsic size and aspect
  ratio and asks whether it is a \<open>BzAsyncTexture\<close>; \<open>paintable_id\<close> is its identity.
\<close>

record GdkPaintable =
  paintable_id :: nat
  intrinsic_width :: int
  intrinsic_height :: int
  intrinsic_aspect_ratio :: double
  is_async_texture :: bool

datatype GskScalingFilter =
  GSK_SCALING_FILTER_LINEAR | GSK_SCALING_FILTER_NEAREST | GSK_SCALING_FILTER_TRILINEAR

datatype GtkSizeRequestMode =
  GTK_SIZE_REQUEST_HEIGHT_FOR_WIDTH | GTK_SIZE_REQUEST_WIDTH_FOR_HEIGHT
  | GTK_SIZE_REQUEST_CONSTANT_SIZE

datatype GtkOrientation = GTK_ORIENTATION_HORIZONTAL | GTK_ORIENTATION_VERTICAL

datatype screenshot_prop =
  PROP_PAINTABLE | PROP_FOCUS_X | PROP_FOCUS_Y | PROP_ROUNDED_CORNERS | PROP_TOP_HALF
  | PROP_FILTER

datatype handler = Invalidate_contents | Invalidate_size | Async_loaded

text \<open>
  What a function asks of the toolkit on behalf of the widget, in the order of the calls:
  signal connections, reference counting, redraw and resize requests, and the change
  notifications of \<open>g_object_notify_by_pspec\<close>.
\<close>

datatype effect =
    Signal_disconnect GdkPaintable handler
  | Signal_connect GdkPaintable string handler
  | Object_unref GdkPaintable
  | Object_ref GdkPaintable
  | Queue_resize
  | Queue_draw
  | Notify screenshot_prop

text \<open>
  The fields of \<open>struct _BzScreenshot\<close>. Of the parent \<open>GtkWidget\<close> the model keeps the
  allocated size (\<open>gtk_widget_get_width\<close>, \<open>gtk_widget_get_height\<close>) and the calls received
  (\<open>effects\<close>, oldest first). A \<open>gboolean\<close> holds \<open>TRUE\<close> or \<open>FALSE\<close>.
\<close>

record BzScreenshot =
  widget_width :: int
  widget_height :: int
  effects :: "effect list"
  paintable :: "GdkPaintable option"
  focus_x :: double
  focus_y :: double
  rounded_corners :: bool
  top_half :: bool
  filter' :: GskScalingFilter

text \<open>\<open>bz_screenshot_init\<close> on the zeroed instance of a widget that has no size yet.\<close>

definition bz_screenshot_init :: BzScreenshot where
  "bz_screenshot_init =
     \<lparr>widget_width = 0, widget_height = 0, effects = [], paintable = None,
      focus_x = - 1, focus_y = - 1, rounded_corners = True, top_half = False,
      filter' = GSK_SCALING_FILTER_TRILINEAR\<rparr>"

definition bz_screenshot_get_request_mode :: "BzScreenshot \<Rightarrow> GtkSizeRequestMode" where
  "bz_screenshot_get_request_mode self =
     (if top_half self then GTK_SIZE_REQUEST_CONSTANT_SIZE
      else GTK_SIZE_REQUEST_HEIGHT_FOR_WIDTH)"

text \<open>The four output parameters of \<open>measure\<close>: the function gets their values and returns them.\<close>

record measure_out =
  minimum :: int
  natural :: int
  minimum_baseline :: int
  natural_baseline :: int

definition bz_screenshot_measure ::
  "(real \<Rightarrow> real) \<Rightarrow> BzScreenshot \<Rightarrow> GtkOrientation \<Rightarrow> int \<Rightarrow> measure_out
     \<Rightarrow> error + measure_out" where
  "bz_screenshot_measure rnd self orientation for_size out =
     (case paintable self of
        None \<Rightarrow> Inr out
      | Some p \<Rightarrow>
          if top_half self then
            (if orientation = GTK_ORIENTATION_HORIZONTAL
             then Inr (out\<lparr>minimum := TOP_HALF_FIXED_WIDTH, natural := TOP_HALF_FIXED_WIDTH\<rparr>)
             else Inr (out\<lparr>minimum := TOP_HALF_FIXED_HEIGHT, natural := TOP_HALF_FIXED_HEIGHT\<rparr>))
          else if orientation = GTK_ORIENTATION_VERTICAL then
            (let intrinsic_height = intrinsic_height p;
                 intrinsic_aspect_ratio = intrinsic_aspect_ratio p
             in if for_size \<ge> 0 \<and> intrinsic_aspect_ratio > 0 then
                  (case ddiv rnd (of_int for_size) intrinsic_aspect_ratio of
                     Inl e \<Rightarrow> Inl e
                   | Inr q \<Rightarrow>
                       (let result = ceil q
                        in Inr (out\<lparr>minimum := double_to_int (MIN_double (of_int intrinsic_height) result),
                                      natural := double_to_int (MIN_double (of_int intrinsic_height) result)\<rparr>)))
                else Inr (out\<lparr>minimum := 0, natural := intrinsic_height\<rparr>))
          else Inr (out\<lparr>minimum := 0, natural := intrinsic_width p\<rparr>))"

text \<open>
  \<open>bz_screenshot_snapshot\<close> first computes where the paintable is drawn: the values of the
  local variables \<open>scaled_w\<close>, \<open>scaled_h\<close>, \<open>x\<close> and \<open>y\<close> when the drawing calls begin. That
  computation is modelled; the result is \<open>None\<close> when the function returns before it,
  because there is no paintable.
\<close>

record layout =
  draw_scaled_w :: double
  draw_scaled_h :: double
  draw_x :: double
  draw_y :: double

definition bz_screenshot_snapshot ::
  "(real \<Rightarrow> real) \<Rightarrow> BzScreenshot \<Rightarrow> error + layout option" where
  "bz_screenshot_snapshot rnd self =
     (case paintable self of
        None \<Rightarrow> Inr None
      | Some p \<Rightarrow>
          (let widget_width = widget_width self;
               widget_height = widget_height self;
               paintable_aspect = intrinsic_aspect_ratio p
           in if top_half self then
                (let scaled_w = of_int TOP_HALF_FIXED_WIDTH
                 in case (if paintable_aspect > 0 then ddiv rnd scaled_w paintable_aspect
                          else Inr (dmul rnd (of_int widget_height) 2)) of
                      Inl e \<Rightarrow> Inl e
                    | Inr scaled_h \<Rightarrow>
                        (case ddiv rnd (dsub rnd (of_int widget_width) scaled_w) 2 of
                           Inl e \<Rightarrow> Inl e
                         | Inr x \<Rightarrow>
                             Inr (Some \<lparr>draw_scaled_w = scaled_w, draw_scaled_h = scaled_h,
                                        draw_x = x, draw_y = 0\<rparr>)))
              else
                (case (if paintable_aspect > 0 then
                         (let scaled_w = of_int widget_width
                          in case ddiv rnd scaled_w paintable_aspect of
                               Inl e \<Rightarrow> Inl e
                             | Inr scaled_h \<Rightarrow>
                                 if scaled_h > of_int widget_height then
                                   (let scaled_h = of_int widget_height
                                    in Inr (dmul rnd scaled_h paintable_aspect, scaled_h))
                                 else Inr (scaled_w, scaled_h))
                       else Inr (of_int widget_width, of_int widget_height)) of
                   Inl e \<Rightarrow> Inl e
                 | Inr (scaled_w, scaled_h) \<Rightarrow>
                     (case ddiv rnd (dsub rnd (of_int widget_width) scaled_w) 2 of
                        Inl e \<Rightarrow> Inl e
                      | Inr x \<Rightarrow>
                          (case ddiv rnd (dsub rnd (of_int widget_height) scaled_h) 2 of
                             Inl e \<Rightarrow> Inl e
                           | Inr y \<Rightarrow>
                               Inr (Some \<lparr>draw_scaled_w = scaled_w, draw_scaled_h = scaled_h,
                                          draw_x = x, draw_y = y\<rparr>))))))"

text \<open>
  The accessors start with \<open>g_return_if_fail (BZ_IS_SCREENSHOT (self))\<close>: \<open>self\<close> is
  \<open>None\<close> when the pointer is not a screenshot widget, and the setter then changes
  nothing, the getter returns the default written in the source. The second check of
  \<open>bz_screenshot_set_paintable\<close>, that its argument is \<open>NULL\<close> or a paintable, holds for
  every \<open>GdkPaintable option\<close>.
\<close>

definition bz_screenshot_set_paintable ::
  "BzScreenshot option \<Rightarrow> GdkPaintable option \<Rightarrow> BzScreenshot option" where
  "bz_screenshot_set_paintable self new_paintable =
     (case self of
        None \<Rightarrow> None
      | Some s \<Rightarrow>
          (let dropped =
                 (case paintable s of
                    None \<Rightarrow> []
                  | Some old \<Rightarrow>
                      [Signal_disconnect old Invalidate_contents,
                       Signal_disconnect old Invalidate_size,
                       Signal_disconnect old Async_loaded,
                       Object_unref old]);
               taken =
                 (case new_paintable of
                    None \<Rightarrow> []
                  | Some p \<Rightarrow>
                      [Object_ref p,
                       Signal_connect p ''invalidate-contents'' Invalidate_contents,
                       Signal_connect p ''invalidate-size'' Invalidate_size]
                      @ (if is_async_texture p
                         then [Signal_connect p ''notify::loaded'' Async_loaded] else []))
           in Some (s\<lparr>paintable := new_paintable,
                       effects := effects s @ dropped @ taken
                                  @ [Queue_resize, Queue_draw, Notify PROP_PAINTABLE]\<rparr>)))"

definition bz_screenshot_get_paintable :: "BzScreenshot option \<Rightarrow> GdkPaintable option" where
  "bz_screenshot_get_paintable self = (case self of None \<Rightarrow> None | Some s \<Rightarrow> paintable s)"

definition bz_screenshot_set_focus_x :: "BzScreenshot option \<Rightarrow> double \<Rightarrow> BzScreenshot option" where
  "bz_screenshot_set_focus_x self v =
     (case self of
        None \<Rightarrow> None
      | Some s \<Rightarrow>
          Some (s\<lparr>focus_x := v, effects := effects s @ [Queue_draw, Notify PROP_FOCUS_X]\<rparr>))"

definition bz_screenshot_get_focus_x :: "BzScreenshot option \<Rightarrow> double" where
  "bz_screenshot_get_focus_x self = (case self of None \<Rightarrow> 0 | Some s \<Rightarrow> focus_x s)"

definition bz_screenshot_set_focus_y :: "BzScreenshot option \<Rightarrow> double \<Rightarrow> BzScreenshot option" where
  "bz_screenshot_set_focus_y self v =
     (case self of
        None \<Rightarrow> None
      | Some s \<Rightarrow>
          Some (s\<lparr>focus_y := v, effects := effects s @ [Queue_draw, Notify PROP_FOCUS_Y]\<rparr>))"

definition bz_screenshot_get_focus_y :: "BzScreenshot option \<Rightarrow> double" where
  "bz_screenshot_get_focus_y self = (case self of None \<Rightarrow> 0 | Some s \<Rightarrow> focus_y s)"

definition bz_screenshot_set_rounded_corners ::
  "BzScreenshot option \<Rightarrow> bool \<Rightarrow> BzScreenshot option" where
  "bz_screenshot_set_rounded_corners self v =
     (case self of
        None \<Rightarrow> None
      | Some s \<Rightarrow>
          if rounded_corners s = v then Some s
          else Some (s\<lparr>rounded_corners := v,
                       effects := effects s @ [Queue_draw, Notify PROP_ROUNDED_CORNERS]\<rparr>))"

definition bz_screenshot_get_rounded_corners :: "BzScreenshot option \<Rightarrow> bool" where
  "bz_screenshot_get_rounded_corners self =
     (case self of None \<Rightarrow> True | Some s \<Rightarrow> rounded_corners s)"

definition bz_screenshot_set_top_half :: "BzScreenshot option \<Rightarrow> bool \<Rightarrow> BzScreenshot option" where
  "bz_screenshot_set_top_half self v =
     (case self of
        None \<Rightarrow> None
      | Some s \<Rightarrow>
          if top_half s = v then Some s
          else Some (s\<lparr>top_half := v,
                       effects := effects s @ [Queue_resize, Queue_draw, Notify PROP_TOP_HALF]\<rparr>))"

definition bz_screenshot_get_top_half :: "BzScreenshot option \<Rightarrow> bool" where
  "bz_screenshot_get_top_half self = (case self of None \<Rightarrow> False | Some s \<Rightarrow> top_half s)"

definition bz_screenshot_set_filter ::
  "BzScreenshot option \<Rightarrow> GskScalingFilter \<Rightarrow> BzScreenshot option" where
  "bz_screenshot_set_filter self v =
     (case self of
        None \<Rightarrow> None
      | Some s \<Rightarrow>
          if filter' s = v then Some s
          else Some (s\<lparr>filter' := v, effects := effects s @ [Queue_draw, Notify PROP_FILTER]\<rparr>))"

text \<open>The default of the getter is \<open>FALSE\<close>, that is 0, the first value of the enumeration.\<close>

definition bz_screenshot_get_filter :: "BzScreenshot option \<Rightarrow> GskScalingFilter" where
  "bz_screenshot_get_filter self =
     (case self of None \<Rightarrow> GSK_SCALING_FILTER_LINEAR | Some s \<Rightarrow> filter' s)"

text \<open>
  What one call asked of the toolkit: the effects that the state after the call has and
  the state \<open>s\<close> before it had not. A call that changed nothing on a missing widget asked
  nothing.
\<close>

definition emitted :: "BzScreenshot \<Rightarrow> BzScreenshot option \<Rightarrow> effect list" where
  "emitted s after =
     (case after of None \<Rightarrow> [] | Some s' \<Rightarrow> drop (length (effects s)) (effects s'))"

section \<open>The transaction view (bz-transaction-view.c)\<close>

text \<open>
  The objects of the application that the view reads are outside the repository. Each is
  a record of what its getters return when the callback runs, a field per getter, with
  \<open>None\<close> for \<open>NULL\<close>. A \<open>BzApplicationMapFactory\<close> is the function that
  \<open>bz_application_map_factory_convert_one\<close> applies to the string it is given.
\<close>

record BzEntryGroup =
  bz_entry_group_get_icon_paintable :: "GdkPaintable option"

record BzEntry =
  bz_entry_get_id :: "string option"
  bz_entry_get_icon_paintable :: "GdkPaintable option"
  bz_entry_is_of_kinds :: "int \<Rightarrow> bool"
  BZ_IS_FLATPAK_ENTRY :: bool
  bz_flatpak_entry_get_addon_extension_of_ref :: "string option"

type_synonym BzApplicationMapFactory = "string option \<Rightarrow> BzEntryGroup option"

record BzStateInfo =
  bz_state_info_get_application_factory :: BzApplicationMapFactory

record BzWindow =
  bz_window_get_state_info :: "BzStateInfo option"

text \<open>
  Of a list item the callbacks use one thing: the \<open>BzWindow\<close> ancestor of its child,
  \<open>gtk_widget_get_ancestor (gtk_list_item_get_child (list_item), BZ_TYPE_WINDOW)\<close>.
\<close>

record GtkListItem =
  window_ancestor_of_child :: "BzWindow option"

record BzTransactionEntryTracker =
  bz_transaction_entry_tracker_get_entry :: "BzEntry option"
  bz_transaction_entry_tracker_get_type_enum :: int

record BzBackendTransactionOpPayload =
  bz_backend_transaction_op_payload_get_name :: "string option"

record BzTransactionTask =
  bz_transaction_task_get_error :: "string option"
  bz_transaction_task_get_op :: "BzBackendTransactionOpPayload option"

datatype BzTransaction = BzTransaction nat

datatype view_prop = PROP_TRANSACTION

datatype view_effect =
    Transaction_unref BzTransaction
  | Transaction_ref BzTransaction
  | View_notify view_prop

record BzTransactionView =
  transaction :: "BzTransaction option"
  view_effects :: "view_effect list"

text \<open>
  The functions of \<open>string.h\<close> on strings without the terminating zero. A pointer into
  a string is the rest of the string from that place on. \<open>strstr\<close> finds the first place
  where the needle starts, \<open>strchr\<close> the first occurrence of a character.
\<close>

fun strstr :: "string \<Rightarrow> string \<Rightarrow> string option" where
  "strstr [] needle = (if needle = [] then Some [] else None)"
| "strstr (c # cs) needle =
     (if take (length needle) (c # cs) = needle then Some (c # cs) else strstr cs needle)"

fun strchr :: "string \<Rightarrow> char \<Rightarrow> string option" where
  "strchr [] ch = None"
| "strchr (c # cs) ch = (if c = ch then Some (c # cs) else strchr cs ch)"

definition bz_application_map_factory_convert_one ::
  "BzApplicationMapFactory \<Rightarrow> string option \<Rightarrow> BzEntryGroup option" where
  "bz_application_map_factory_convert_one factory str = factory str"

text \<open>The unused first argument \<open>object\<close> of the template callbacks is left out.\<close>

definition is_null :: "'a option \<Rightarrow> bool" where
  "is_null v = (v = None)"

definition filter_finished_ops_by_app_id ::
  "BzTransactionTask option \<Rightarrow> BzTransactionEntryTracker option \<Rightarrow> bool" where
  "filter_finished_ops_by_app_id item user_data =
     (case item of
        None \<Rightarrow> True
      | Some task \<Rightarrow>
     (case user_data of
        None \<Rightarrow> True
      | Some tracker \<Rightarrow>
     (case bz_transaction_task_get_error task of
        Some err \<Rightarrow> True
      | None \<Rightarrow>
     (case bz_transaction_entry_tracker_get_entry tracker of
        None \<Rightarrow> True
      | Some entry \<Rightarrow>
     (case bz_entry_get_id entry of
        None \<Rightarrow> True
      | Some entry_id \<Rightarrow>
     (case bz_transaction_task_get_op task of
        None \<Rightarrow> True
      | Some op \<Rightarrow>
     (case bz_backend_transaction_op_payload_get_name op of
        None \<Rightarrow> True
      | Some op_name \<Rightarrow> strstr op_name entry_id = None)))))))"

text \<open>A \<open>GtkCustomFilter\<close> is its match function, with the user data already given.\<close>

definition create_app_id_filter ::
  "BzTransactionEntryTracker option \<Rightarrow> (BzTransactionTask option \<Rightarrow> bool) option" where
  "create_app_id_filter tracker =
     (case tracker of
        None \<Rightarrow> None
      | Some t \<Rightarrow> Some (\<lambda>item. filter_finished_ops_by_app_id item (Some t)))"

definition is_transaction_type :: "BzTransactionEntryTracker option \<Rightarrow> int \<Rightarrow> bool" where
  "is_transaction_type tracker type =
     (case tracker of
        None \<Rightarrow> False
      | Some t \<Rightarrow> bz_transaction_entry_tracker_get_type_enum t = type)"

text \<open>A \<open>GListModel\<close> is the list of its items.\<close>

definition list_has_items :: "'a list option \<Rightarrow> bool" where
  "list_has_items model =
     (case model of
        None \<Rightarrow> False
      | Some items \<Rightarrow> length items > 0)"

text \<open>
  The constant \<open>BZ_ENTRY_KIND_APPLICATION\<close> is declared outside the repository: it is the
  first argument of the two functions that need it.
\<close>

definition resolve_group_from_entry ::
  "int \<Rightarrow> BzEntry \<Rightarrow> BzWindow \<Rightarrow> BzEntryGroup option" where
  "resolve_group_from_entry BZ_ENTRY_KIND_APPLICATION entry window =
     (case bz_window_get_state_info window of
        None \<Rightarrow> None
      | Some info \<Rightarrow>
     (case (if bz_entry_is_of_kinds entry BZ_ENTRY_KIND_APPLICATION
            then bz_application_map_factory_convert_one
                   (bz_state_info_get_application_factory info) (bz_entry_get_id entry)
            else None) of
        Some found \<Rightarrow> Some found
      | None \<Rightarrow>
     (case bz_flatpak_entry_get_addon_extension_of_ref entry of
        None \<Rightarrow> None
      | Some extension_of_ref \<Rightarrow>
     (case strchr extension_of_ref (CHR ''/'') of
        None \<Rightarrow> None
      | Some at_slash \<Rightarrow>
          (let generic_id = tl at_slash;
               generic_id =
                 (case strchr generic_id (CHR ''/'') of
                    None \<Rightarrow> generic_id
                  | Some generic_id_term \<Rightarrow>
                      take (length generic_id - length generic_id_term) generic_id)
           in bz_application_map_factory_convert_one
                (bz_state_info_get_application_factory info) (Some generic_id))))))"

text \<open>
  The result of \<open>get_main_icon\<close>: a paintable of the application, or the icon that
  \<open>gtk_icon_theme_lookup_icon\<close> finds for a name, a size and a scale.
\<close>

datatype icon = Paintable_icon GdkPaintable | Themed_icon string int int

definition generic_icon :: icon where
  "generic_icon = Themed_icon ''application-x-executable'' 64 1"

definition get_main_icon ::
  "int \<Rightarrow> GtkListItem \<Rightarrow> BzTransactionEntryTracker option \<Rightarrow> icon" where
  "get_main_icon BZ_ENTRY_KIND_APPLICATION list_item tracker =
     (case tracker of
        None \<Rightarrow> generic_icon
      | Some t \<Rightarrow>
     (case bz_transaction_entry_tracker_get_entry t of
        None \<Rightarrow> generic_icon
      | Some entry \<Rightarrow>
     (case bz_entry_get_icon_paintable entry of
        Some icon_paintable \<Rightarrow> Paintable_icon icon_paintable
      | None \<Rightarrow>
          if BZ_IS_FLATPAK_ENTRY entry then
            (case window_ancestor_of_child list_item of
               None \<Rightarrow> generic_icon
             | Some window \<Rightarrow>
            (case resolve_group_from_entry BZ_ENTRY_KIND_APPLICATION entry window of
               None \<Rightarrow> generic_icon
             | Some found \<Rightarrow>
            (case bz_entry_group_get_icon_paintable found of
               Some icon_paintable \<Rightarrow> Paintable_icon icon_paintable
             | None \<Rightarrow> generic_icon)))
          else generic_icon)))"

definition is_entry_kind :: "BzTransactionEntryTracker option \<Rightarrow> int \<Rightarrow> bool" where
  "is_entry_kind tracker kind =
     (case tracker of
        None \<Rightarrow> False
      | Some t \<Rightarrow>
     (case bz_transaction_entry_tracker_get_entry t of
        None \<Rightarrow> False
      | Some entry \<Rightarrow> bz_entry_is_of_kinds entry kind))"

definition bz_transaction_view_get_transaction ::
  "BzTransactionView option \<Rightarrow> BzTransaction option" where
  "bz_transaction_view_get_transaction self =
     (case self of None \<Rightarrow> None | Some s \<Rightarrow> transaction s)"

definition bz_transaction_view_set_transaction ::
  "BzTransactionView option \<Rightarrow> BzTransaction option \<Rightarrow> BzTransactionView option" where
  "bz_transaction_view_set_transaction self new_transaction =
     (case self of
        None \<Rightarrow> None
      | Some s \<Rightarrow>
          Some (s\<lparr>transaction := new_transaction,
                   view_effects := view_effects s
                     @ (case transaction s of None \<Rightarrow> [] | Some old \<Rightarrow> [Transaction_unref old])
                     @ (case new_transaction of None \<Rightarrow> [] | Some t \<Rightarrow> [Transaction_ref t])
                     @ [View_notify PROP_TRANSACTION]\<rparr>))"

definition view_emitted :: "BzTransactionView \<Rightarrow> BzTransactionView option \<Rightarrow> view_effect list" where
  "view_emitted s after =
     (case after of None \<Rightarrow> [] | Some s' \<Rightarrow> drop (length (view_effects s)) (view_effects s'))"

section \<open>SPDX license helpers (bz-spdx.c)\<close>

text \<open>
  A C string that may be \<open>NULL\<close> is a \<open>string option\<close>. The two AppStream functions
  \<open>as_get_license_url\<close> and \<open>as_license_to_spdx_id\<close> belong to a library outside the
  repository: each is a parameter of the functions that call it, a function from the
  license identifier to the string it returns (\<open>None\<close> for \<open>NULL\<close>).
  \<open>g_return_val_if_fail (license_id != NULL, v)\<close> returns \<open>v\<close> on a null argument.
\<close>

text \<open>\<open>g_str_has_prefix (str, prefix)\<close>: the first \<open>strlen (prefix)\<close> bytes of \<open>str\<close> are \<open>prefix\<close>.\<close>

definition g_str_has_prefix :: "string \<Rightarrow> string \<Rightarrow> bool" where
  "g_str_has_prefix str pre = (take (length pre) str = pre)"

definition bz_spdx_is_valid :: "(string \<Rightarrow> string option) \<Rightarrow> string option \<Rightarrow> bool" where
  "bz_spdx_is_valid as_get_license_url license_id =
     (case license_id of
        None \<Rightarrow> False
      | Some s \<Rightarrow> (let url = as_get_license_url s in url \<noteq> None))"

definition bz_spdx_get_url :: "(string \<Rightarrow> string option) \<Rightarrow> string option \<Rightarrow> string option" where
  "bz_spdx_get_url as_get_license_url license_id =
     (case license_id of
        None \<Rightarrow> None
      | Some s \<Rightarrow> as_get_license_url s)"

definition bz_spdx_get_name :: "(string \<Rightarrow> string option) \<Rightarrow> string option \<Rightarrow> string option" where
  "bz_spdx_get_name as_license_to_spdx_id license_id =
     (case license_id of
        None \<Rightarrow> None
      | Some s \<Rightarrow>
          if g_str_has_prefix s ''LicenseRef-proprietary'' then Some ''Proprietary''
          else (case as_license_to_spdx_id s of
                  None \<Rightarrow> Some s
                | Some result \<Rightarrow> Some result))"

section \<open>Example objects\<close>

text \<open>Concrete objects on which the theorems below are instantiated.\<close>

definition example_paintable :: GdkPaintable where
  "example_paintable =
     \<lparr>paintable_id = 1, intrinsic_width = 1920, intrinsic_height = 1080,
      intrinsic_aspect_ratio = 16 / 9, is_async_texture = False\<rparr>"

definition example_screenshot :: BzScreenshot where
  "example_screenshot =
     bz_screenshot_init\<lparr>widget_width := 800, widget_height := 300,
                        paintable := Some example_paintable\<rparr>"



definition example_out :: measure_out where
  "example_out = \<lparr>minimum = 7, natural = 8, minimum_baseline = - 1, natural_baseline = - 1\<rparr>"

definition example_entry :: BzEntry where
  "example_entry =
     \<lparr>bz_entry_get_id = Some ''org.gnome.Maps'',
      bz_entry_get_icon_paintable = None,
      bz_entry_is_of_kinds = (\<lambda>kinds. kinds = 1),
      BZ_IS_FLATPAK_ENTRY = True,
      bz_flatpak_entry_get_addon_extension_of_ref = None\<rparr>"

definition example_tracker :: BzTransactionEntryTracker where
  "example_tracker =
     \<lparr>bz_transaction_entry_tracker_get_entry = Some example_entry,
      bz_transaction_entry_tracker_get_type_enum = 0\<rparr>"

definition example_op :: BzBackendTransactionOpPayload where
  "example_op = \<lparr>bz_backend_transaction_op_payload_get_name = Some ''app/org.gnome.Maps/x86_64''\<rparr>"

definition example_task :: BzTransactionTask where
  "example_task =
     \<lparr>bz_transaction_task_get_error = None, bz_transaction_task_get_op = Some example_op\<rparr>"

definition example_other_task :: BzTransactionTask where
  "example_other_task =
     \<lparr>bz_transaction_task_get_error = None,
      bz_transaction_task_get_op =
        Some \<lparr>bz_backend_transaction_op_payload_get_name = Some ''runtime/org.gnome.Platform''\<rparr>\<rparr>"

definition example_window :: BzWindow where
  "example_window = \<lparr>bz_window_get_state_info = None\<rparr>"

section \<open>Facts about the double operations and the string functions\<close>

lemma round_double_of_int:
  "\<bar>n\<bar> \<le> 2 ^ 53 \<Longrightarrow> round_double rnd (of_int n) = of_int n"
proof -
  assume "\<bar>n\<bar> \<le> 2 ^ 53"
  then have "\<bar>real_of_int n\<bar> \<le> 2 ^ 53"
    by (metis of_int_abs of_int_le_iff of_int_numeral of_int_power)
  then show ?thesis by (simp add: round_double_def)
qed

lemma ddiv_nonzero: "y \<noteq> 0 \<Longrightarrow> ddiv rnd x y = Inr (round_double rnd (x / y))"
  by (simp add: ddiv_def)

lemma dmul_int_two:
  "\<bar>H\<bar> < 2 ^ 31 \<Longrightarrow> dmul rnd (of_int H) 2 = 2 * of_int H" for H :: int
proof -
  assume "\<bar>H\<bar> < 2 ^ 31"
  then have "\<bar>H * 2\<bar> \<le> 2 ^ 53" by simp
  then have "round_double rnd (of_int (H * 2)) = of_int (H * 2)"
    by (rule round_double_of_int)
  then show ?thesis by (simp add: dmul_def)
qed

lemma double_to_int_of_int: "double_to_int (of_int n) = n"
  by (simp add: double_to_int_def)

lemma MIN_double_of_int: "MIN_double (of_int a) (of_int b) = of_int (min a b)"
  by (simp add: MIN_double_def min_def)

text \<open>The binary64 rounding of one tenth is the double that \<open>0.1\<close> denotes in C.\<close>

lemma binary64_one_tenth: "binary64 (1 / 10) = 3602879701896397 / 36028797018963968"
  by (simp add: binary64_def binary_exponent_def compute_bitlen round_half_even_def Let_def
      power_int_def power_one_over)





lemma stays_below_exact: "(\<forall>x. rnd x = x) \<Longrightarrow> stays_below rnd n"
  by (simp add: stays_below_def round_double_def)

lemma take_prefix_iff: "take (length needle) hay = needle \<longleftrightarrow> prefix needle hay"
  by (metis append_eq_conv_conj prefix_def)

lemma g_str_has_prefix_iff: "g_str_has_prefix str pre \<longleftrightarrow> prefix pre str"
  by (simp add: g_str_has_prefix_def take_prefix_iff)

text \<open>\<open>strstr\<close> returns \<open>NULL\<close> exactly when the needle does not occur in the haystack.\<close>

lemma strstr_None_iff: "strstr haystack needle = None \<longleftrightarrow> \<not> sublist needle haystack"
  by (induction haystack)
    (auto simp: take_prefix_iff sublist_Cons_right simp del: take_Suc_Cons take_eq_Nil)

text \<open>The place \<open>strstr\<close> returns is a place where the needle starts.\<close>

lemma strstr_Some_prefix: "strstr haystack needle = Some rest \<Longrightarrow> prefix needle rest"
  by (induction haystack) (auto simp: take_prefix_iff split: if_splits simp del: take_Suc_Cons take_eq_Nil)

section \<open>The screenshot widget: size and placement\<close>

text \<open>
  C3. A screenshot with a paintable and with \<open>top_half\<close> set asks for a constant size:
  the request mode is \<open>GTK_SIZE_REQUEST_CONSTANT_SIZE\<close>, \<open>measure\<close> reports minimum =
  natural = 650 in the horizontal and 265 in the vertical orientation for every
  \<open>for_size\<close>, and \<open>snapshot\<close> draws with a scaled width of exactly 650 at \<open>y = 0\<close>.
\<close>

theorem top_half_fixed_size:
  "top_half s \<and> paintable s = Some p \<longrightarrow>
     bz_screenshot_get_request_mode s = GTK_SIZE_REQUEST_CONSTANT_SIZE
   \<and> bz_screenshot_measure rnd s GTK_ORIENTATION_HORIZONTAL for_size out =
       Inr (out\<lparr>minimum := 650, natural := 650\<rparr>)
   \<and> bz_screenshot_measure rnd s GTK_ORIENTATION_VERTICAL for_size out =
       Inr (out\<lparr>minimum := 265, natural := 265\<rparr>)
   \<and> (\<exists>l. bz_screenshot_snapshot rnd s = Inr (Some l) \<and> draw_scaled_w l = 650 \<and> draw_y l = 0)"
  by (auto simp: bz_screenshot_get_request_mode_def bz_screenshot_measure_def
      bz_screenshot_snapshot_def TOP_HALF_FIXED_WIDTH_def TOP_HALF_FIXED_HEIGHT_def
      ddiv_nonzero Let_def)

theorem top_half_fixed_size_witness:
  "top_half (example_screenshot\<lparr>top_half := True\<rparr>)
   \<and> paintable (example_screenshot\<lparr>top_half := True\<rparr>) = Some example_paintable
   \<and> bz_screenshot_get_request_mode (example_screenshot\<lparr>top_half := True\<rparr>)
       = GTK_SIZE_REQUEST_CONSTANT_SIZE
   \<and> bz_screenshot_measure (\<lambda>x. x) (example_screenshot\<lparr>top_half := True\<rparr>)
        GTK_ORIENTATION_HORIZONTAL 100 example_out
       = Inr (example_out\<lparr>minimum := 650, natural := 650\<rparr>)
   \<and> bz_screenshot_measure (\<lambda>x. x) (example_screenshot\<lparr>top_half := True\<rparr>)
        GTK_ORIENTATION_VERTICAL 100 example_out
       = Inr (example_out\<lparr>minimum := 265, natural := 265\<rparr>)
   \<and> bz_screenshot_snapshot (\<lambda>x. x) (example_screenshot\<lparr>top_half := True\<rparr>)
       = Inr (Some \<lparr>draw_scaled_w = 650, draw_scaled_h = 2925 / 8, draw_x = 75, draw_y = 0\<rparr>)"
proof -
  have snap: "bz_screenshot_snapshot (\<lambda>x. x) (example_screenshot\<lparr>top_half := True\<rparr>)
       = Inr (Some \<lparr>draw_scaled_w = 650, draw_scaled_h = 2925 / 8, draw_x = 75, draw_y = 0\<rparr>)"
    by (simp add: bz_screenshot_snapshot_def example_screenshot_def example_paintable_def
        bz_screenshot_init_def TOP_HALF_FIXED_WIDTH_def ddiv_def dsub_def round_double_def)
  show ?thesis
    using top_half_fixed_size [of "example_screenshot\<lparr>top_half := True\<rparr>" example_paintable
        "\<lambda>x. x" 100 example_out] snap
    by (simp add: example_screenshot_def)
qed

text \<open>
  C5. Without \<open>top_half\<close> and with a paintable, the vertical measurement for
  \<open>for_size \<ge> 0\<close> and an aspect ratio \<open>a > 0\<close> sets minimum and natural to
  \<open>min (intrinsic_height, ceil (for_size / a))\<close>, the division being the division of
  doubles; for \<open>for_size < 0\<close> or \<open>a \<le> 0\<close> it sets minimum = 0 and natural =
  intrinsic height; the horizontal measurement sets minimum = 0 and natural = intrinsic
  width. Without a paintable the output parameters keep their values.
\<close>

theorem measure_height_for_width:
  "(paintable s = Some p \<and> \<not> top_half s \<longrightarrow>
     (0 \<le> for_size \<and> 0 < intrinsic_aspect_ratio p \<longrightarrow>
        bz_screenshot_measure rnd s GTK_ORIENTATION_VERTICAL for_size out =
          Inr (out\<lparr>minimum := min (intrinsic_height p)
                                  \<lceil>round_double rnd (of_int for_size / intrinsic_aspect_ratio p)\<rceil>,
                    natural := min (intrinsic_height p)
                                  \<lceil>round_double rnd (of_int for_size / intrinsic_aspect_ratio p)\<rceil>\<rparr>))
   \<and> (for_size < 0 \<or> intrinsic_aspect_ratio p \<le> 0 \<longrightarrow>
        bz_screenshot_measure rnd s GTK_ORIENTATION_VERTICAL for_size out =
          Inr (out\<lparr>minimum := 0, natural := intrinsic_height p\<rparr>))
   \<and> bz_screenshot_measure rnd s GTK_ORIENTATION_HORIZONTAL for_size out =
          Inr (out\<lparr>minimum := 0, natural := intrinsic_width p\<rparr>))
  \<and> (paintable s = None \<longrightarrow>
        bz_screenshot_measure rnd s orientation for_size out = Inr out)"
  by (auto simp: bz_screenshot_measure_def ddiv_def ceil_def MIN_double_of_int
      double_to_int_of_int Let_def)

theorem measure_height_for_width_witness:
  "paintable example_screenshot = Some example_paintable
   \<and> \<not> top_half example_screenshot
   \<and> 0 < intrinsic_aspect_ratio example_paintable
   \<and> bz_screenshot_measure (\<lambda>x. x) example_screenshot GTK_ORIENTATION_VERTICAL 650 example_out
     = Inr (example_out\<lparr>minimum := 366, natural := 366\<rparr>)
   \<and> bz_screenshot_measure (\<lambda>x. x) example_screenshot GTK_ORIENTATION_VERTICAL 4000 example_out
     = Inr (example_out\<lparr>minimum := 1080, natural := 1080\<rparr>)
   \<and> bz_screenshot_measure (\<lambda>x. x) example_screenshot GTK_ORIENTATION_VERTICAL (- 1) example_out
     = Inr (example_out\<lparr>minimum := 0, natural := 1080\<rparr>)
   \<and> bz_screenshot_measure (\<lambda>x. x) example_screenshot GTK_ORIENTATION_HORIZONTAL 650 example_out
     = Inr (example_out\<lparr>minimum := 0, natural := 1920\<rparr>)
   \<and> paintable bz_screenshot_init = None
   \<and> bz_screenshot_measure (\<lambda>x. x) bz_screenshot_init GTK_ORIENTATION_VERTICAL 650 example_out
     = Inr example_out"
  using measure_height_for_width [of example_screenshot example_paintable 650 "\<lambda>x. x" example_out]
    measure_height_for_width [of example_screenshot example_paintable 4000 "\<lambda>x. x" example_out]
    measure_height_for_width [of example_screenshot example_paintable "- 1" "\<lambda>x. x" example_out]
    measure_height_for_width [of bz_screenshot_init _ 650 "\<lambda>x. x" example_out
      GTK_ORIENTATION_VERTICAL]
  by (simp add: example_screenshot_def example_paintable_def bz_screenshot_init_def
      round_double_def)

lemma snapshot_no_division_by_zero: "bz_screenshot_snapshot rnd s \<noteq> Inl DivisionByZero"
  by (auto simp: bz_screenshot_snapshot_def ddiv_nonzero Let_def split: option.splits)

lemma measure_no_division_by_zero:
  "bz_screenshot_measure rnd s orientation for_size out \<noteq> Inl DivisionByZero"
  by (auto simp: bz_screenshot_measure_def ddiv_nonzero Let_def split: option.splits)

lemma snapshot_fallback:
  assumes "paintable s = Some p" and "\<not> 0 < intrinsic_aspect_ratio p"
    and "\<bar>widget_height s\<bar> < 2 ^ 31"
  shows "\<exists>l. bz_screenshot_snapshot rnd s = Inr (Some l)
            \<and> (if top_half s then draw_scaled_h l = 2 * of_int (widget_height s)
                else draw_scaled_w l = of_int (widget_width s)
                   \<and> draw_scaled_h l = of_int (widget_height s))"
  using assms by (simp add: bz_screenshot_snapshot_def ddiv_nonzero Let_def dmul_int_two)

lemma measure_fallback:
  assumes "paintable s = Some p" and "\<not> top_half s" and "\<not> 0 < intrinsic_aspect_ratio p"
  shows "bz_screenshot_measure rnd s GTK_ORIENTATION_VERTICAL for_size out =
           Inr (out\<lparr>minimum := 0, natural := intrinsic_height p\<rparr>)"
  using assms by (simp add: bz_screenshot_measure_def Let_def)

text \<open>
  C7. In \<open>bz_screenshot_snapshot\<close> and \<open>bz_screenshot_measure\<close> a division by the aspect
  ratio happens only where the aspect ratio is strictly positive, so no call divides by
  zero. Where the aspect ratio is not positive, \<open>snapshot\<close> uses fixed sizes: in top-half
  mode \<open>scaled_h\<close> is twice the widget height, otherwise \<open>scaled_w\<close> and \<open>scaled_h\<close> are
  the widget width and height. The widget height is an \<open>int\<close> of 32 bits. Where the
  aspect ratio is not positive, the vertical measurement without \<open>top_half\<close> does not
  divide either: it sets minimum = 0 and natural = intrinsic height.
\<close>

theorem aspect_division_guarded:
  "bz_screenshot_snapshot rnd s \<noteq> Inl DivisionByZero
   \<and> bz_screenshot_measure rnd s orientation for_size out \<noteq> Inl DivisionByZero
   \<and> (paintable s = Some p \<and> \<not> 0 < intrinsic_aspect_ratio p \<and> \<bar>widget_height s\<bar> < 2 ^ 31 \<longrightarrow>
        (\<exists>l. bz_screenshot_snapshot rnd s = Inr (Some l)
            \<and> (if top_half s then draw_scaled_h l = 2 * of_int (widget_height s)
                else draw_scaled_w l = of_int (widget_width s)
                   \<and> draw_scaled_h l = of_int (widget_height s))))
   \<and> (paintable s = Some p \<and> \<not> top_half s \<and> \<not> 0 < intrinsic_aspect_ratio p \<longrightarrow>
        bz_screenshot_measure rnd s GTK_ORIENTATION_VERTICAL for_size out =
          Inr (out\<lparr>minimum := 0, natural := intrinsic_height p\<rparr>))"
  using snapshot_no_division_by_zero measure_no_division_by_zero snapshot_fallback
    measure_fallback
  by blast

theorem aspect_division_guarded_witness:
  "paintable (example_screenshot\<lparr>paintable := Some (example_paintable\<lparr>intrinsic_aspect_ratio := 0\<rparr>)\<rparr>)
     = Some (example_paintable\<lparr>intrinsic_aspect_ratio := 0\<rparr>)
   \<and> \<not> 0 < intrinsic_aspect_ratio (example_paintable\<lparr>intrinsic_aspect_ratio := 0\<rparr>)
   \<and> \<bar>widget_height example_screenshot\<bar> < 2 ^ 31
   \<and> (\<exists>l. bz_screenshot_snapshot (\<lambda>x. x)
             (example_screenshot\<lparr>paintable := Some (example_paintable\<lparr>intrinsic_aspect_ratio := 0\<rparr>)\<rparr>)
             = Inr (Some l)
          \<and> draw_scaled_w l = 800 \<and> draw_scaled_h l = 300)
   \<and> (\<exists>l. bz_screenshot_snapshot (\<lambda>x. x)
             (example_screenshot\<lparr>paintable := Some (example_paintable\<lparr>intrinsic_aspect_ratio := 0\<rparr>),
                                 top_half := True\<rparr>)
             = Inr (Some l)
          \<and> draw_scaled_h l = 600)
   \<and> \<not> top_half (example_screenshot\<lparr>paintable := Some (example_paintable\<lparr>intrinsic_aspect_ratio := 0\<rparr>)\<rparr>)
   \<and> bz_screenshot_measure (\<lambda>x. x)
        (example_screenshot\<lparr>paintable := Some (example_paintable\<lparr>intrinsic_aspect_ratio := 0\<rparr>)\<rparr>)
        GTK_ORIENTATION_VERTICAL 650 example_out
      = Inr (example_out\<lparr>minimum := 0, natural := 1080\<rparr>)"
  using aspect_division_guarded [of "\<lambda>x. x"
      "example_screenshot\<lparr>paintable := Some (example_paintable\<lparr>intrinsic_aspect_ratio := 0\<rparr>)\<rparr>"
      GTK_ORIENTATION_VERTICAL 650 example_out "example_paintable\<lparr>intrinsic_aspect_ratio := 0\<rparr>"]
    aspect_division_guarded [of "\<lambda>x. x"
      "example_screenshot\<lparr>paintable := Some (example_paintable\<lparr>intrinsic_aspect_ratio := 0\<rparr>),
                           top_half := True\<rparr>"
      GTK_ORIENTATION_VERTICAL 650 example_out "example_paintable\<lparr>intrinsic_aspect_ratio := 0\<rparr>"]
  by (simp add: example_screenshot_def example_paintable_def bz_screenshot_init_def)

subsection \<open>Placement in fit mode\<close>

text \<open>
  Without \<open>top_half\<close> and with a positive aspect ratio the paintable is fitted into the
  widget. Whatever the rounding, the scaled rectangle fills the width or the height of
  the widget and is not higher than the widget.
\<close>

lemma snapshot_fit_any_rounding:
  assumes "paintable s = Some p" and "\<not> top_half s" and "0 < intrinsic_aspect_ratio p"
  shows "\<exists>l. bz_screenshot_snapshot rnd s = Inr (Some l)
            \<and> (draw_scaled_w l = of_int (widget_width s)
                \<or> draw_scaled_h l = of_int (widget_height s))
            \<and> draw_scaled_h l \<le> of_int (widget_height s)"
  using assms by (auto simp: bz_screenshot_snapshot_def ddiv_nonzero Let_def)

text \<open>
  When the width decides, \<open>scaled_w\<close> is the widget width \<open>W\<close> and \<open>scaled_h\<close> the double
  quotient of \<open>W\<close> by the aspect ratio \<open>a\<close>. The rectangle then has exactly the aspect ratio
  of the paintable, \<open>scaled_w = scaled_h * a\<close>, if and only if that division was exact:
  whether it is depends on the floating-point format.
\<close>

lemma snapshot_fit_aspect_iff_exact:
  assumes "paintable s = Some p" and "\<not> top_half s" and "0 < intrinsic_aspect_ratio p"
    and "round_double rnd (of_int (widget_width s) / intrinsic_aspect_ratio p)
           \<le> of_int (widget_height s)"
  shows "\<exists>l. bz_screenshot_snapshot rnd s = Inr (Some l)
            \<and> draw_scaled_w l = of_int (widget_width s)
            \<and> draw_scaled_h l = round_double rnd (of_int (widget_width s) / intrinsic_aspect_ratio p)
            \<and> (draw_scaled_w l = draw_scaled_h l * intrinsic_aspect_ratio p
                 \<longleftrightarrow> round_double rnd (of_int (widget_width s) / intrinsic_aspect_ratio p)
                       = of_int (widget_width s) / intrinsic_aspect_ratio p)"
  using assms
  by (auto simp: bz_screenshot_snapshot_def ddiv_nonzero Let_def nonzero_eq_divide_eq)

text \<open>In arithmetic without rounding, where \<open>rnd\<close> changes nothing, the whole holds.\<close>

lemma round_double_exact: "round_double (\<lambda>x. x) x = x"
  by (simp add: round_double_def)

lemma snapshot_fit_exact_arithmetic:
  assumes "paintable s = Some p" and "\<not> top_half s" and "0 < intrinsic_aspect_ratio p"
    and "0 \<le> widget_width s" and "0 \<le> widget_height s"
  shows "\<exists>l. bz_screenshot_snapshot (\<lambda>x. x) s = Inr (Some l)
            \<and> draw_scaled_w l = draw_scaled_h l * intrinsic_aspect_ratio p
            \<and> draw_scaled_w l \<le> of_int (widget_width s)
            \<and> draw_scaled_h l \<le> of_int (widget_height s)
            \<and> (draw_scaled_w l = of_int (widget_width s)
                \<or> draw_scaled_h l = of_int (widget_height s))
            \<and> draw_x l = (of_int (widget_width s) - draw_scaled_w l) / 2
            \<and> draw_y l = (of_int (widget_height s) - draw_scaled_h l) / 2"
proof (cases "of_int (widget_width s) / intrinsic_aspect_ratio p > of_int (widget_height s)")
  case True
  with assms have "of_int (widget_height s) * intrinsic_aspect_ratio p \<le> of_int (widget_width s)"
    by (simp add: pos_less_divide_eq)
  with True assms show ?thesis
    by (simp add: bz_screenshot_snapshot_def ddiv_nonzero dmul_def dsub_def
        round_double_exact Let_def)
next
  case False
  with assms show ?thesis
    by (simp add: bz_screenshot_snapshot_def ddiv_nonzero dmul_def dsub_def
        round_double_exact Let_def)
qed










section \<open>The screenshot widget: properties\<close>

text \<open>
  C6, as the code has it. For every property of the screenshot (paintable, focus-x,
  focus-y, rounded-corners, top-half, filter) and for the transaction of the transaction
  view, the getter after the setter returns the value that was set. Every call of the
  paintable, focus-x, focus-y and transaction setters emits the change notification of
  its property; the rounded-corners, top-half and filter setters emit it exactly when the
  value differs from the current one.
\<close>

theorem setters_round_trip_and_notify:
  "bz_screenshot_get_paintable (bz_screenshot_set_paintable (Some s) p) = p
   \<and> bz_screenshot_get_focus_x (bz_screenshot_set_focus_x (Some s) fx) = fx
   \<and> bz_screenshot_get_focus_y (bz_screenshot_set_focus_y (Some s) fy) = fy
   \<and> bz_screenshot_get_rounded_corners (bz_screenshot_set_rounded_corners (Some s) rc) = rc
   \<and> bz_screenshot_get_top_half (bz_screenshot_set_top_half (Some s) th) = th
   \<and> bz_screenshot_get_filter (bz_screenshot_set_filter (Some s) f) = f
   \<and> bz_transaction_view_get_transaction (bz_transaction_view_set_transaction (Some view) t) = t
   \<and> Notify PROP_PAINTABLE \<in> set (emitted s (bz_screenshot_set_paintable (Some s) p))
   \<and> Notify PROP_FOCUS_X \<in> set (emitted s (bz_screenshot_set_focus_x (Some s) fx))
   \<and> Notify PROP_FOCUS_Y \<in> set (emitted s (bz_screenshot_set_focus_y (Some s) fy))
   \<and> View_notify PROP_TRANSACTION
        \<in> set (view_emitted view (bz_transaction_view_set_transaction (Some view) t))
   \<and> (Notify PROP_ROUNDED_CORNERS \<in> set (emitted s (bz_screenshot_set_rounded_corners (Some s) rc)))
        = (rc \<noteq> rounded_corners s)
   \<and> (Notify PROP_TOP_HALF \<in> set (emitted s (bz_screenshot_set_top_half (Some s) th)))
        = (th \<noteq> top_half s)
   \<and> (Notify PROP_FILTER \<in> set (emitted s (bz_screenshot_set_filter (Some s) f)))
        = (f \<noteq> filter' s)"
  by (auto simp: bz_screenshot_get_paintable_def bz_screenshot_set_paintable_def
      bz_screenshot_get_focus_x_def bz_screenshot_set_focus_x_def
      bz_screenshot_get_focus_y_def bz_screenshot_set_focus_y_def
      bz_screenshot_get_rounded_corners_def bz_screenshot_set_rounded_corners_def
      bz_screenshot_get_top_half_def bz_screenshot_set_top_half_def
      bz_screenshot_get_filter_def bz_screenshot_set_filter_def
      bz_transaction_view_get_transaction_def bz_transaction_view_set_transaction_def
      emitted_def view_emitted_def Let_def)

text \<open>
  C6 as it was stated, with a notification on every call of every setter, fails: on a new
  widget, whose corners are rounded, \<open>bz_screenshot_set_rounded_corners\<close> with \<open>TRUE\<close>
  asks nothing of the toolkit.
\<close>

theorem set_rounded_corners_same_value_silent:
  "rounded_corners bz_screenshot_init = True
   \<and> emitted bz_screenshot_init
        (bz_screenshot_set_rounded_corners (Some bz_screenshot_init) True) = []"
  by (simp add: bz_screenshot_set_rounded_corners_def bz_screenshot_init_def emitted_def)

text \<open>
  C10. The setters of rounded-corners, top-half and filter, called with the current value,
  leave the whole widget state as it is and emit no notification. The setters of focus-x
  and focus-y store the value and emit a notification on every call, also when the value
  is the current one.
\<close>

theorem equality_guarded_setters:
  "bz_screenshot_set_rounded_corners (Some s) (rounded_corners s) = Some s
   \<and> emitted s (bz_screenshot_set_rounded_corners (Some s) (rounded_corners s)) = []
   \<and> bz_screenshot_set_top_half (Some s) (top_half s) = Some s
   \<and> emitted s (bz_screenshot_set_top_half (Some s) (top_half s)) = []
   \<and> bz_screenshot_set_filter (Some s) (filter' s) = Some s
   \<and> emitted s (bz_screenshot_set_filter (Some s) (filter' s)) = []
   \<and> bz_screenshot_set_focus_x (Some s) v =
        Some (s\<lparr>focus_x := v, effects := effects s @ [Queue_draw, Notify PROP_FOCUS_X]\<rparr>)
   \<and> emitted s (bz_screenshot_set_focus_x (Some s) v) = [Queue_draw, Notify PROP_FOCUS_X]
   \<and> emitted s (bz_screenshot_set_focus_x (Some s) (focus_x s))
        = [Queue_draw, Notify PROP_FOCUS_X]
   \<and> bz_screenshot_set_focus_y (Some s) v =
        Some (s\<lparr>focus_y := v, effects := effects s @ [Queue_draw, Notify PROP_FOCUS_Y]\<rparr>)
   \<and> emitted s (bz_screenshot_set_focus_y (Some s) v) = [Queue_draw, Notify PROP_FOCUS_Y]
   \<and> emitted s (bz_screenshot_set_focus_y (Some s) (focus_y s))
        = [Queue_draw, Notify PROP_FOCUS_Y]"
  by (simp add: bz_screenshot_set_rounded_corners_def bz_screenshot_set_top_half_def
      bz_screenshot_set_filter_def bz_screenshot_set_focus_x_def bz_screenshot_set_focus_y_def
      emitted_def)

section \<open>The transaction view: template callbacks\<close>

text \<open>
  C2. For a task and a tracker that are not null, with no error on the task and with an
  entry, an entry id, an operation and an operation name that are not null,
  \<open>filter_finished_ops_by_app_id\<close> returns \<open>FALSE\<close> exactly when the name of the
  operation contains the entry id as a substring, and \<open>TRUE\<close> otherwise. Whenever one of
  them is null, or the task has an error, it returns \<open>TRUE\<close>.
\<close>

theorem filter_finished_ops_by_app_id_substring:
  "(bz_transaction_task_get_error task = None
      \<and> bz_transaction_entry_tracker_get_entry tracker = Some entry
      \<and> bz_entry_get_id entry = Some entry_id
      \<and> bz_transaction_task_get_op task = Some op
      \<and> bz_backend_transaction_op_payload_get_name op = Some op_name
    \<longrightarrow> filter_finished_ops_by_app_id (Some task) (Some tracker)
          = (\<not> (\<exists>before after. op_name = before @ entry_id @ after)))
   \<and> filter_finished_ops_by_app_id None user_data
   \<and> filter_finished_ops_by_app_id item None
   \<and> (bz_transaction_task_get_error task_e \<noteq> None
        \<longrightarrow> filter_finished_ops_by_app_id (Some task_e) user_data)
   \<and> (bz_transaction_entry_tracker_get_entry tracker_n = None
        \<longrightarrow> filter_finished_ops_by_app_id item (Some tracker_n))
   \<and> (bz_transaction_entry_tracker_get_entry tracker_i = Some entry_i
        \<and> bz_entry_get_id entry_i = None
        \<longrightarrow> filter_finished_ops_by_app_id item (Some tracker_i))
   \<and> (bz_transaction_task_get_op task_o = None
        \<longrightarrow> filter_finished_ops_by_app_id (Some task_o) user_data)
   \<and> (bz_transaction_task_get_op task_p = Some op_p
        \<and> bz_backend_transaction_op_payload_get_name op_p = None
        \<longrightarrow> filter_finished_ops_by_app_id (Some task_p) user_data)"
  by (auto simp: filter_finished_ops_by_app_id_def strstr_None_iff sublist_def
      split: option.splits)

theorem filter_finished_ops_by_app_id_substring_witness:
  "filter_finished_ops_by_app_id (Some example_task) (Some example_tracker) = False
   \<and> (\<exists>before after. ''app/org.gnome.Maps/x86_64'' = before @ ''org.gnome.Maps'' @ after)
   \<and> filter_finished_ops_by_app_id (Some example_other_task) (Some example_tracker) = True
   \<and> \<not> (\<exists>before after. ''runtime/org.gnome.Platform'' = before @ ''org.gnome.Maps'' @ after)
   \<and> filter_finished_ops_by_app_id
        (Some (example_task\<lparr>bz_transaction_task_get_error := Some ''failed''\<rparr>))
        (Some example_tracker) = True
   \<and> filter_finished_ops_by_app_id (Some example_task)
        (Some (example_tracker\<lparr>bz_transaction_entry_tracker_get_entry := None\<rparr>)) = True
   \<and> filter_finished_ops_by_app_id (Some example_task)
        (Some (example_tracker\<lparr>bz_transaction_entry_tracker_get_entry :=
           Some (example_entry\<lparr>bz_entry_get_id := None\<rparr>)\<rparr>)) = True
   \<and> filter_finished_ops_by_app_id
        (Some (example_task\<lparr>bz_transaction_task_get_op := None\<rparr>)) (Some example_tracker) = True
   \<and> filter_finished_ops_by_app_id
        (Some (example_task\<lparr>bz_transaction_task_get_op :=
           Some \<lparr>bz_backend_transaction_op_payload_get_name = None\<rparr>\<rparr>))
        (Some example_tracker) = True"
proof -
  have hit: "filter_finished_ops_by_app_id (Some example_task) (Some example_tracker) = False"
    by (simp add: filter_finished_ops_by_app_id_def example_task_def example_tracker_def
        example_entry_def example_op_def)
  have miss: "filter_finished_ops_by_app_id (Some example_other_task) (Some example_tracker) = True"
    by (simp add: filter_finished_ops_by_app_id_def example_other_task_def example_tracker_def
        example_entry_def)
  note filter_finished_ops_by_app_id_substring [where task = example_task and tracker = example_tracker and entry = example_entry
      and entry_id = "''org.gnome.Maps''" and op = example_op
      and op_name = "''app/org.gnome.Maps/x86_64''"
      and task_e = "example_task\<lparr>bz_transaction_task_get_error := Some ''failed''\<rparr>"
      and user_data = "Some example_tracker"
      and item = "Some example_task"
      and tracker_n = "example_tracker\<lparr>bz_transaction_entry_tracker_get_entry := None\<rparr>"
      and tracker_i = "example_tracker\<lparr>bz_transaction_entry_tracker_get_entry :=
           Some (example_entry\<lparr>bz_entry_get_id := None\<rparr>)\<rparr>"
      and entry_i = "example_entry\<lparr>bz_entry_get_id := None\<rparr>"
      and task_o = "example_task\<lparr>bz_transaction_task_get_op := None\<rparr>"
      and task_p = "example_task\<lparr>bz_transaction_task_get_op :=
           Some \<lparr>bz_backend_transaction_op_payload_get_name = None\<rparr>\<rparr>"
      and op_p = "\<lparr>bz_backend_transaction_op_payload_get_name = None\<rparr>"]
    filter_finished_ops_by_app_id_substring [where task = example_other_task and tracker = example_tracker and entry = example_entry
      and entry_id = "''org.gnome.Maps''"
      and op = "\<lparr>bz_backend_transaction_op_payload_get_name = Some ''runtime/org.gnome.Platform''\<rparr>"
      and op_name = "''runtime/org.gnome.Platform''"]
  with hit miss show ?thesis
    by (simp add: example_task_def example_other_task_def example_tracker_def
        example_entry_def example_op_def)
qed

text \<open>
  C4. The template callbacks return their default on a null argument:
  \<open>is_transaction_type\<close>, \<open>is_entry_kind\<close> and \<open>list_has_items\<close> return \<open>FALSE\<close> for a null
  tracker, entry or model; \<open>create_app_id_filter\<close> returns \<open>NULL\<close> for a null tracker;
  \<open>get_main_icon\<close> returns the themed icon \<open>application-x-executable\<close> when the tracker
  or the entry is null, and when the entry has no icon paintable and the window or the
  group resolved from it is null.
\<close>

theorem template_callbacks_null_defaults:
  "is_transaction_type None type = False
   \<and> is_entry_kind None kind = False
   \<and> (bz_transaction_entry_tracker_get_entry tracker_k = None
        \<longrightarrow> is_entry_kind (Some tracker_k) kind = False)
   \<and> list_has_items None = False
   \<and> create_app_id_filter None = None
   \<and> get_main_icon app_kind list_item None = Themed_icon ''application-x-executable'' 64 1
   \<and> (bz_transaction_entry_tracker_get_entry tracker_n = None
        \<longrightarrow> get_main_icon app_kind list_item (Some tracker_n)
            = Themed_icon ''application-x-executable'' 64 1)
   \<and> (bz_transaction_entry_tracker_get_entry tracker_w = Some entry_w
        \<and> bz_entry_get_icon_paintable entry_w = None
        \<and> window_ancestor_of_child list_item_w = None
        \<longrightarrow> get_main_icon app_kind list_item_w (Some tracker_w)
            = Themed_icon ''application-x-executable'' 64 1)
   \<and> (bz_transaction_entry_tracker_get_entry tracker_g = Some entry_g
        \<and> bz_entry_get_icon_paintable entry_g = None
        \<and> window_ancestor_of_child list_item_g = Some window
        \<and> resolve_group_from_entry app_kind entry_g window = None
        \<longrightarrow> get_main_icon app_kind list_item_g (Some tracker_g)
            = Themed_icon ''application-x-executable'' 64 1)"
  by (auto simp: is_transaction_type_def is_entry_kind_def list_has_items_def
      create_app_id_filter_def get_main_icon_def generic_icon_def)

theorem template_callbacks_null_defaults_witness:
  "is_entry_kind (Some (example_tracker\<lparr>bz_transaction_entry_tracker_get_entry := None\<rparr>)) 1 = False
   \<and> get_main_icon 1 \<lparr>window_ancestor_of_child = Some example_window\<rparr>
        (Some (example_tracker\<lparr>bz_transaction_entry_tracker_get_entry := None\<rparr>))
      = Themed_icon ''application-x-executable'' 64 1
   \<and> bz_entry_get_icon_paintable example_entry = None
   \<and> get_main_icon 1 \<lparr>window_ancestor_of_child = None\<rparr> (Some example_tracker)
      = Themed_icon ''application-x-executable'' 64 1
   \<and> resolve_group_from_entry 1 example_entry example_window = None
   \<and> get_main_icon 1 \<lparr>window_ancestor_of_child = Some example_window\<rparr> (Some example_tracker)
      = Themed_icon ''application-x-executable'' 64 1"
  using template_callbacks_null_defaults [where ?'a = nat and type = 0 and tracker_k = "example_tracker\<lparr>bz_transaction_entry_tracker_get_entry := None\<rparr>"
      and kind = 1 and app_kind = 1
      and list_item = "\<lparr>window_ancestor_of_child = Some example_window\<rparr>"
      and tracker_n = "example_tracker\<lparr>bz_transaction_entry_tracker_get_entry := None\<rparr>"
      and tracker_w = example_tracker and entry_w = example_entry
      and list_item_w = "\<lparr>window_ancestor_of_child = None\<rparr>"
      and tracker_g = example_tracker and entry_g = example_entry
      and list_item_g = "\<lparr>window_ancestor_of_child = Some example_window\<rparr>"
      and window = example_window]
  by (simp add: example_tracker_def example_entry_def example_window_def
      resolve_group_from_entry_def)

section \<open>SPDX license helpers\<close>

text \<open>
  C8. For every non-null license identifier \<open>s\<close>, \<open>bz_spdx_get_name\<close> returns a non-null
  string: \<open>Proprietary\<close> when \<open>s\<close> starts with \<open>LicenseRef-proprietary\<close>, otherwise the
  SPDX conversion of \<open>s\<close> when the conversion succeeds, otherwise \<open>s\<close> itself.
\<close>

theorem bz_spdx_get_name_total:
  "bz_spdx_get_name conv (Some s) \<noteq> None \<and>
   bz_spdx_get_name conv (Some s) =
     Some (if prefix ''LicenseRef-proprietary'' s then ''Proprietary''
           else (case conv s of Some r \<Rightarrow> r | None \<Rightarrow> s))"
  by (simp add: bz_spdx_get_name_def g_str_has_prefix_iff split: option.splits)

text \<open>
  C9. For every non-null license identifier \<open>s\<close>, \<open>bz_spdx_is_valid\<close> returns \<open>TRUE\<close>
  exactly when \<open>bz_spdx_get_url\<close> returns a non-null URL: both ask the same lookup.
\<close>

theorem bz_spdx_is_valid_iff_url:
  "bz_spdx_is_valid lookup (Some s) \<longleftrightarrow> bz_spdx_get_url lookup (Some s) \<noteq> None"
  by (simp add: bz_spdx_is_valid_def bz_spdx_get_url_def)

end
